theory Spec2Isabelle
  imports Complex_Main "HOL-Library.Sublist" "HOL-Library.Product_Lexorder"
begin

section \<open>Python values shared by the embedded functions\<close>

text \<open>
  The exceptions the embedded Python functions can raise.  A function that can raise
  returns \<open>error + 'a\<close>, with \<open>Inl\<close> for the exception.
\<close>

datatype error =
    IndexError
  | ValueError
  | KeyError
  | TypeError
  | AssertionError
  | ZeroDivisionError
  | UnboundLocalError

text \<open>
  Strings are lists of characters.  The character classes are those of ASCII text:
  \<open>is_space\<close> is \<^verbatim>\<open>str.isspace\<close>, \<open>is_digit\<close> is the class
  \<^verbatim>\<open>\d\<close> and what \<^verbatim>\<open>str.isnumeric\<close> accepts.
\<close>

definition is_space :: "char \<Rightarrow> bool" where
  "is_space c \<longleftrightarrow>
     c \<in> set [CHR '' '', CHR 0x09, CHR 0x0A, CHR 0x0B, CHR 0x0C, CHR 0x0D,
                CHR 0x1C, CHR 0x1D, CHR 0x1E, CHR 0x1F]"

definition is_digit :: "char \<Rightarrow> bool" where
  "is_digit c \<longleftrightarrow> c \<in> set ''0123456789''"

definition digit_val :: "char \<Rightarrow> nat" where
  "digit_val c = of_char c - 48"

text \<open>The value of a string of decimal digits, most significant digit first.\<close>

definition nat_of_digits :: "string \<Rightarrow> nat" where
  "nat_of_digits s = foldl (\<lambda>n c. 10 * n + digit_val c) 0 s"

text \<open>\<^verbatim>\<open>s.isnumeric()\<close>: non-empty, every character numeric.\<close>

definition isnumeric :: "string \<Rightarrow> bool" where
  "isnumeric s \<longleftrightarrow> s \<noteq> [] \<and> list_all is_digit s"

text \<open>
  \<^verbatim>\<open>s.split()\<close>: the maximal runs of non-whitespace characters, in order.  The
  first argument is the word being read.
\<close>

fun split_ws_from :: "string \<Rightarrow> string \<Rightarrow> string list" where
  "split_ws_from cur [] = (if cur = [] then [] else [cur])"
| "split_ws_from cur (c # cs) =
     (if is_space c
      then (if cur = [] then split_ws_from [] cs else cur # split_ws_from [] cs)
      else split_ws_from (cur @ [c]) cs)"

definition split_ws :: "string \<Rightarrow> string list" where
  "split_ws s = split_ws_from [] s"

text \<open>
  \<^verbatim>\<open>s.split(sep)\<close> for a non-empty separator: the pieces between the
  non-overlapping occurrences of \<open>sep\<close>, found from the left; always at least one piece.
\<close>

function split_on_from :: "string \<Rightarrow> string \<Rightarrow> string \<Rightarrow> string list" where
  "split_on_from sep cur [] = [cur]"
| "split_on_from sep cur (c # cs) =
     (if sep \<noteq> [] \<and> prefix sep (c # cs)
      then cur # split_on_from sep [] (drop (length sep) (c # cs))
      else split_on_from sep (cur @ [c]) cs)"
  by pat_completeness auto
termination
  by (relation "measure (\<lambda>(sep, cur, s). length s)") auto

definition split_on :: "string \<Rightarrow> string \<Rightarrow> string list" where
  "split_on sep s = split_on_from sep [] s"

text \<open>\<^verbatim>\<open>xs[0]\<close>, which raises IndexError on the empty list.\<close>

definition first_item :: "'a list \<Rightarrow> error + 'a" where
  "first_item xs = (case xs of [] \<Rightarrow> Inl IndexError | x # _ \<Rightarrow> Inr x)"

section \<open>ranking.py: extract_rating_from_response\<close>

text \<open>
  \<^verbatim>\<open>
  rating = response_str.split()[0]
  if rating.isnumeric():
      return float(rating)
  else:
      loc = response_str.split("Rating:")
      if len(loc) > 1:
          rating = loc[1].split()[0]
          if rating.isnumeric():
              return float(rating)
          else:
              return 1.0
  \<close>
  The result is \<open>Inr (Some r)\<close> for a returned float, \<open>Inr None\<close> when the function
  reaches its end without a \<^verbatim>\<open>return\<close> (Python then returns None), and
  \<open>Inl IndexError\<close> when \<^verbatim>\<open>[0]\<close> is applied to an empty list.
\<close>

definition extract_rating_from_response :: "string \<Rightarrow> error + real option" where
  "extract_rating_from_response response_str =
     (case first_item (split_ws response_str) of
        Inl e \<Rightarrow> Inl e
      | Inr rating \<Rightarrow>
          if isnumeric rating then Inr (Some (of_nat (nat_of_digits rating)))
          else
            (let loc = split_on ''Rating:'' response_str in
             if length loc > 1 then
               (case first_item (split_ws (loc ! 1)) of
                  Inl e \<Rightarrow> Inl e
                | Inr rating' \<Rightarrow>
                    if isnumeric rating' then Inr (Some (of_nat (nat_of_digits rating')))
                    else Inr (Some 1))
             else Inr None))"

section \<open>utils/string_utils.py: find_end_word, extract_prediction (tokens)\<close>

text \<open>\<^verbatim>\<open>sub in s\<close> on strings: \<open>sub\<close> occurs in \<open>s\<close> as a contiguous substring.\<close>

fun contains :: "string \<Rightarrow> string \<Rightarrow> bool" where
  "contains sub [] = (sub = [])"
| "contains sub (c # cs) = (prefix sub (c # cs) \<or> contains sub cs)"

text \<open>
  \<^verbatim>\<open>paragraph[-window_size:]\<close> for a non-negative \<open>window_size\<close>: the last
  \<open>window_size\<close> characters, the whole string when it is shorter, and (as \<^verbatim>\<open>-0\<close>
  is \<^verbatim>\<open>0\<close>) the whole string when \<open>window_size\<close> is 0.
\<close>

definition window :: "string \<Rightarrow> nat \<Rightarrow> string" where
  "window paragraph window_size =
     (if window_size = 0 then paragraph
      else drop (length paragraph - window_size) paragraph)"

text \<open>
  \<^verbatim>\<open>sorted(xs, key=key, reverse=True)\<close>: descending by key, and stable (elements
  with equal keys keep their order in \<open>xs\<close>): Python reverses, sorts stably, reverses.
\<close>

definition sorted_desc :: "('a \<Rightarrow> 'k::linorder) \<Rightarrow> 'a list \<Rightarrow> 'a list" where
  "sorted_desc key xs = rev (sort_key key (rev xs))"

text \<open>The sort key of \<open>find_end_word\<close>: \<^verbatim>\<open>len(s.split(" "))\<close>.\<close>

definition word_count :: "string \<Rightarrow> nat" where
  "word_count s = length (split_on '' '' s)"

text \<open>
  \<^verbatim>\<open>
  sorted_words = sorted(end_words, key=lambda s: len(s.split(" ")), reverse=True)
  for end_word in sorted_words:
      if end_word in paragraph[-window_size:]:
          return end_word
  return None
  \<close>
\<close>

definition find_end_word :: "string \<Rightarrow> string list \<Rightarrow> nat \<Rightarrow> string option" where
  "find_end_word paragraph end_words window_size =
     find (\<lambda>end_word. contains end_word (window paragraph window_size))
       (sorted_desc word_count end_words)"

text \<open>
  A prediction as the pipeline passes it around: a float (\<open>Number\<close>, or \<open>NaN\<close>, which
  NumPy returns for the mean of nothing), a vocabulary token, or Python's None.
\<close>

datatype prediction = Number real | NaN | Word string | PyNone

definition token_result :: "string option \<Rightarrow> prediction" where
  "token_result r = (case r of None \<Rightarrow> PyNone | Some w \<Rightarrow> Word w)"

text \<open>The keys of \<^verbatim>\<open>TOKENS_TO_PROBS_DICT\<close> (config/constants.py), in order.\<close>

definition six_options :: "string list" where
  "six_options = [''No'', ''Very Unlikely'', ''Unlikely'', ''Likely'', ''Very Likely'', ''Yes'']"

definition ten_options :: "string list" where
  "ten_options = [''No'', ''Extremely Unlikely'', ''Very Unlikely'', ''Unlikely'',
     ''Slightly Unlikely'', ''Slightly Likely'', ''Likely'', ''Very Likely'',
     ''Extremely Likely'', ''Yes'']"

section \<open>utils/string_utils.py: extract_probability_with_stars\<close>

text \<open>
  The two regular expressions of the function are built from three kinds of item: a
  literal character, the lazy \<^verbatim>\<open>.*?\<close> and the greedy \<^verbatim>\<open>[\d\.]+\<close>.
  \<open>rx_match p s\<close> is the backtracking match of the items \<open>p\<close> at the start of \<open>s\<close>,
  as \<^verbatim>\<open>re\<close> runs it: the length of the first match in priority order, or None.
  A lazy item tries the rest of the pattern before it takes one more character (never
  a newline); a greedy item takes one more character before it tries the rest.
\<close>

datatype rx_item = Lit char | LazyAny | NumRun

definition is_num_char :: "char \<Rightarrow> bool" where
  "is_num_char c \<longleftrightarrow> is_digit c \<or> c = CHR ''.''"

fun rx_match :: "rx_item list \<Rightarrow> string \<Rightarrow> nat option" where
  "rx_match [] s = Some 0"
| "rx_match (Lit c # r) [] = None"
| "rx_match (Lit c # r) (x # xs) = (if x = c then map_option Suc (rx_match r xs) else None)"
| "rx_match (LazyAny # r) [] = rx_match r []"
| "rx_match (LazyAny # r) (x # xs) =
     (case rx_match r (x # xs) of
        Some n \<Rightarrow> Some n
      | None \<Rightarrow> if x = CHR 0x0A then None else map_option Suc (rx_match (LazyAny # r) xs))"
| "rx_match (NumRun # r) [] = None"
| "rx_match (NumRun # r) (x # xs) =
     (if is_num_char x then
        (case rx_match (NumRun # r) xs of
           Some n \<Rightarrow> Some (Suc n)
         | None \<Rightarrow> map_option Suc (rx_match r xs))
      else None)"

text \<open>
  The matches \<^verbatim>\<open>re.findall\<close> reports, as whole matched substrings: scanning from
  the left, a match at the current position is taken and the scan resumes after it;
  otherwise the scan moves one character on.  The counter is the number of characters
  of the last match still to be skipped.  (Both patterns match at least one character.)
\<close>

fun findall_from :: "rx_item list \<Rightarrow> nat \<Rightarrow> string \<Rightarrow> string list" where
  "findall_from p k [] = []"
| "findall_from p (Suc k) (x # xs) = findall_from p k xs"
| "findall_from p 0 (x # xs) =
     (case rx_match p (x # xs) of
        Some n \<Rightarrow> take n (x # xs) # findall_from p (n - 1) xs
      | None \<Rightarrow> findall_from p 0 xs)"

definition findall :: "rx_item list \<Rightarrow> string \<Rightarrow> string list" where
  "findall p s = findall_from p 0 s"

text \<open>\<^verbatim>\<open>\*(.*?[\d\.]+.*?)\*\<close> and \<^verbatim>\<open>([\d\.]+.*?)\*\<close>.\<close>

definition star_pattern :: "rx_item list" where
  "star_pattern = [Lit CHR ''*'', LazyAny, NumRun, LazyAny, Lit CHR ''*'']"

definition tail_pattern :: "rx_item list" where
  "tail_pattern = [NumRun, LazyAny, Lit CHR ''*'']"

text \<open>
  \<^verbatim>\<open>re.search(r"[\d\.]+", match)\<close>: the first maximal run of digits and dots, and
  \<^verbatim>\<open>re.findall(r"[\d\.]+", match)\<close>: all of them.
\<close>

definition first_num_run :: "string \<Rightarrow> string option" where
  "first_num_run s =
     (let r = dropWhile (\<lambda>c. \<not> is_num_char c) s
      in if r = [] then None else Some (takeWhile is_num_char r))"

fun num_runs_from :: "string \<Rightarrow> string \<Rightarrow> string list" where
  "num_runs_from cur [] = (if cur = [] then [] else [cur])"
| "num_runs_from cur (c # cs) =
     (if is_num_char c then num_runs_from (cur @ [c]) cs
      else if cur = [] then num_runs_from [] cs else cur # num_runs_from [] cs)"

definition num_runs :: "string \<Rightarrow> string list" where
  "num_runs s = num_runs_from [] s"

text \<open>
  \<^verbatim>\<open>float(s)\<close> on a string of digits and dots: digits with at most one dot and at
  least one digit; anything else raises ValueError (\<open>None\<close>), which the function
  catches.  The value is the exact decimal value: the rounding of the binary float is
  not modelled.
\<close>

definition py_float :: "string \<Rightarrow> real option" where
  "py_float s =
     (let ip = takeWhile is_digit s; rest = dropWhile is_digit s in
      if rest = [] then (if ip = [] then None else Some (of_nat (nat_of_digits ip)))
      else if hd rest = CHR ''.'' \<and> list_all is_digit (tl rest) \<and> (ip \<noteq> [] \<or> tl rest \<noteq> [])
      then Some (of_nat (nat_of_digits ip) +
                 of_nat (nat_of_digits (tl rest)) / 10 ^ length (tl rest))
      else None)"

text \<open>
  The first loop: for each match of the first pattern, the group is the match without
  its two asterisks; its first number, divided by 100 when the group contains a percent
  sign, is appended unless \<^verbatim>\<open>float\<close> fails.
\<close>

definition star_number :: "string \<Rightarrow> real list" where
  "star_number match_group =
     (case first_num_run match_group of
        None \<Rightarrow> []
      | Some number_match \<Rightarrow>
          (case py_float number_match of
             None \<Rightarrow> []
           | Some number \<Rightarrow> [if CHR ''%'' \<in> set match_group then number / 100 else number]))"

definition numbers_in_stars :: "string \<Rightarrow> real list" where
  "numbers_in_stars text =
     concat (map (\<lambda>m. star_number (butlast (tl m))) (findall star_pattern text))"

text \<open>
  The second loop: for each match of the second pattern, the group is the match without
  its final asterisk; every number in it that \<^verbatim>\<open>float\<close> accepts is appended.
\<close>

definition numbers_before_star :: "string \<Rightarrow> real list" where
  "numbers_before_star text =
     concat (map (\<lambda>m. List.map_filter py_float (num_runs (butlast m)))
               (findall tail_pattern text))"

text \<open>
  \<^verbatim>\<open>
  if len(extracted_numbers) > 0 and extracted_numbers[-1] <= 1:
      return extracted_numbers[-1]
  ... (second pattern)
  if len(extracted_numbers) > 0 and extracted_numbers[-1] <= 1:
      return extracted_numbers[-1]
  return 0.5
  \<close>
\<close>

definition extract_probability_with_stars :: "string \<Rightarrow> real" where
  "extract_probability_with_stars text =
     (let extracted_numbers = numbers_in_stars text in
      if extracted_numbers \<noteq> [] \<and> last extracted_numbers \<le> 1 then last extracted_numbers
      else
        (let extracted_numbers = numbers_before_star text in
         if extracted_numbers \<noteq> [] \<and> last extracted_numbers \<le> 1
         then last extracted_numbers
         else 1 / 2))"

text \<open>
  \<^verbatim>\<open>
  if answer_type == "probability":
      return extract_probability_with_stars(response)
  elif answer_type == "tokens":
      return find_end_word(response, end_words)
  else:
      raise ValueError(f"Invalid answer_type: {answer_type}")
  \<close>
  \<open>find_end_word\<close> is called with its default window of 50.
\<close>

definition extract_prediction :: "string \<Rightarrow> string \<Rightarrow> string list \<Rightarrow> error + prediction" where
  "extract_prediction response answer_type end_words =
     (if answer_type = ''probability'' then Inr (Number (extract_probability_with_stars response))
      else if answer_type = ''tokens'' then Inr (token_result (find_end_word response end_words 50))
      else Inl ValueError)"

section \<open>utils/time_utils.py: dates\<close>

text \<open>
  A date is (year, month, day), ordered lexicographically as \<^verbatim>\<open>datetime\<close> orders
  them; a datetime is a date and the seconds since midnight.
\<close>

type_synonym date = "nat \<times> nat \<times> nat"
type_synonym datetime = "date \<times> nat"

definition is_leap :: "nat \<Rightarrow> bool" where
  "is_leap y \<longleftrightarrow> y mod 4 = 0 \<and> (y mod 100 \<noteq> 0 \<or> y mod 400 = 0)"

definition days_in_month :: "nat \<Rightarrow> nat \<Rightarrow> nat" where
  "days_in_month y m =
     (if m = 2 then (if is_leap y then 29 else 28)
      else if m \<in> set [4, 6, 9, 11] then 30 else 31)"

text \<open>
  \<^verbatim>\<open>datetime.strptime(s, "%Y-%m-%d")\<close>.  The format compiles to the regular
  expression \<^verbatim>\<open>(\d\d\d\d)-(1[0-2]|0[1-9]|[1-9])-(3[01]|[12]\d|0[1-9]|[1-9]| [1-9])\<close>,
  which must match the whole string; the date must then exist (year at least 1, day
  within the month).  Anything else raises ValueError.
\<close>

fun parse_month :: "string \<Rightarrow> nat option" where
  "parse_month [a] = (if a \<in> set ''123456789'' then Some (digit_val a) else None)"
| "parse_month [a, b] =
     (if a = CHR ''1'' \<and> b \<in> set ''012'' then Some (10 + digit_val b)
      else if a = CHR ''0'' \<and> b \<in> set ''123456789'' then Some (digit_val b)
      else None)"
| "parse_month _ = None"

fun parse_day :: "string \<Rightarrow> nat option" where
  "parse_day [a] = (if a \<in> set ''123456789'' then Some (digit_val a) else None)"
| "parse_day [a, b] =
     (if a = CHR ''3'' \<and> b \<in> set ''01'' then Some (30 + digit_val b)
      else if a \<in> set ''12'' \<and> is_digit b then Some (10 * digit_val a + digit_val b)
      else if a \<in> set ''0 '' \<and> b \<in> set ''123456789'' then Some (digit_val b)
      else None)"
| "parse_day _ = None"

definition strptime :: "string \<Rightarrow> error + datetime" where
  "strptime s =
     (if 5 \<le> length s \<and> list_all is_digit (take 4 s) \<and> s ! 4 = CHR ''-'' then
        (case split_on ''-'' (drop 5 s) of
           [ms, ds] \<Rightarrow>
             (case (parse_month ms, parse_day ds) of
                (Some m, Some d) \<Rightarrow>
                  (let y = nat_of_digits (take 4 s) in
                   if 1 \<le> y \<and> d \<le> days_in_month y m then Inr ((y, m, d), 0)
                   else Inl ValueError)
              | _ \<Rightarrow> Inl ValueError)
         | _ \<Rightarrow> Inl ValueError)
      else Inl ValueError)"

text \<open>
  \<^verbatim>\<open>
  first_date_obj = datetime.strptime(first_date_str, "%Y-%m-%d")
  second_date_obj = datetime.strptime(second_date_str, "%Y-%m-%d")
  if or_equal_to:
      return second_date_obj >= first_date_obj
  return second_date_obj > first_date_obj
  \<close>
\<close>

definition is_more_recent :: "string \<Rightarrow> string \<Rightarrow> bool \<Rightarrow> error + bool" where
  "is_more_recent first_date_str second_date_str or_equal_to =
     (case strptime first_date_str of
        Inl e \<Rightarrow> Inl e
      | Inr first_date_obj \<Rightarrow>
          (case strptime second_date_str of
             Inl e \<Rightarrow> Inl e
           | Inr second_date_obj \<Rightarrow>
               if or_equal_to then Inr (second_date_obj \<ge> first_date_obj)
               else Inr (second_date_obj > first_date_obj)))"

section \<open>Articles\<close>

text \<open>
  The fields of an article object that the embedded functions read.  \<open>title\<close> and
  \<open>canonical_link\<close> are \<open>None\<close> when the attribute is not a \<^verbatim>\<open>str\<close>;
  \<open>publish_date\<close> and \<open>relevance_rating\<close> are \<open>None\<close> for Python's None.
\<close>

record article =
  title :: "string option"
  canonical_link :: "string option"
  publish_date :: "datetime option"
  relevance_rating :: "real option"
  text_cleaned :: string
  search_term :: string

section \<open>ranking.py: _sort_and_filter_articles\<close>

text \<open>
  \<^verbatim>\<open>article.relevance_rating and article.relevance_rating >= threshold\<close>: None and
  0 are falsy.
\<close>

definition keeps_rating :: "real \<Rightarrow> article \<Rightarrow> bool" where
  "keeps_rating threshold a =
     (case relevance_rating a of None \<Rightarrow> False | Some r \<Rightarrow> r \<noteq> 0 \<and> r \<ge> threshold)"

text \<open>
  \<^verbatim>\<open>
  for article in filtered_articles:
      if not article.publish_date:
          article.publish_date = datetime.strptime(default_date, "%Y-%m-%d")
  \<close>
  The articles are updated in place; the model returns the updated list.
\<close>

fun fill_default_dates :: "string \<Rightarrow> article list \<Rightarrow> error + article list" where
  "fill_default_dates default_date [] = Inr []"
| "fill_default_dates default_date (a # as) =
     (case publish_date a of
        Some d \<Rightarrow> map_sum id ((#) a) (fill_default_dates default_date as)
      | None \<Rightarrow>
         (case strptime default_date of
            Inl e \<Rightarrow> Inl e
          | Inr d \<Rightarrow>
              map_sum id ((#) (a\<lparr>publish_date := Some d\<rparr>))
                (fill_default_dates default_date as)))"

definition rating_key :: "article \<Rightarrow> real" where
  "rating_key a = (case relevance_rating a of Some r \<Rightarrow> r | None \<Rightarrow> 0)"

definition date_key :: "article \<Rightarrow> date" where
  "date_key a = (case publish_date a of Some d \<Rightarrow> fst d | None \<Rightarrow> (0, 0, 0))"

text \<open>
  \<^verbatim>\<open>
  filtered_articles = [article for article in articles
      if article.relevance_rating and article.relevance_rating >= threshold]
  if sort_by == "relevance":
      return sorted(filtered_articles, key=lambda x: x.relevance_rating, reverse=True)
  elif sort_by == "date":
      ... (fill in the default date)
      return sorted(filtered_articles, key=lambda x: x.publish_date.date(), reverse=True)
  logger.error(f"Not a valid sorting criterion: {sort_by}")
  return filtered_articles
  \<close>
  The result is the pair of the messages given to \<^verbatim>\<open>logger.error\<close> and the returned
  list.
\<close>

definition sort_and_filter_articles ::
  "article list \<Rightarrow> string \<Rightarrow> real \<Rightarrow> string \<Rightarrow> error + (string list \<times> article list)" where
  "sort_and_filter_articles articles default_date threshold sort_by =
     (let filtered_articles = filter (keeps_rating threshold) articles in
      if sort_by = ''relevance'' then Inr ([], sorted_desc rating_key filtered_articles)
      else if sort_by = ''date'' then
        (case fill_default_dates default_date filtered_articles of
           Inl e \<Rightarrow> Inl e
         | Inr dated \<Rightarrow> Inr ([], sorted_desc date_key dated))
      else Inr ([''Not a valid sorting criterion: '' @ sort_by], filtered_articles))"

section \<open>information_retrieval.py: deduplicate_articles\<close>

text \<open>\<^verbatim>\<open>str.lower\<close> on ASCII text.\<close>

definition lower_char :: "char \<Rightarrow> char" where
  "lower_char c =
     (case map_of (zip ''ABCDEFGHIJKLMNOPQRSTUVWXYZ'' ''abcdefghijklmnopqrstuvwxyz'') c of
        Some d \<Rightarrow> d
      | None \<Rightarrow> c)"

definition lower :: "string \<Rightarrow> string" where
  "lower s = map lower_char s"

text \<open>
  \<^verbatim>\<open>
  unique_articles = []; unique_urls = set(); unique_titles = set()
  for article in articles:
      if not isinstance(article.title, str) or not isinstance(article.canonical_link, str):
          continue
      if (article.canonical_link.lower() not in unique_urls
              and article.title.lower() not in unique_titles):
          unique_articles.append(article)
          unique_urls.add(article.canonical_link.lower())
          unique_titles.add(article.title.lower())
  return unique_articles
  \<close>
  The loop, with its three variables as arguments.
\<close>

fun dedup_loop ::
  "article list \<Rightarrow> article list \<Rightarrow> string set \<Rightarrow> string set \<Rightarrow> article list" where
  "dedup_loop [] unique_articles unique_urls unique_titles = unique_articles"
| "dedup_loop (a # as) unique_articles unique_urls unique_titles =
     (case (title a, canonical_link a) of
        (Some t, Some l) \<Rightarrow>
          if lower l \<notin> unique_urls \<and> lower t \<notin> unique_titles
          then dedup_loop as (unique_articles @ [a])
                 (insert (lower l) unique_urls) (insert (lower t) unique_titles)
          else dedup_loop as unique_articles unique_urls unique_titles
      | _ \<Rightarrow> dedup_loop as unique_articles unique_urls unique_titles)"

definition deduplicate_articles :: "article list \<Rightarrow> article list" where
  "deduplicate_articles articles = dedup_loop articles [] {} {}"

section \<open>utils/utils.py: most_frequent_item\<close>

text \<open>
  \<^verbatim>\<open>Counter(lst).most_common(1)[0][0]\<close>, None on the empty list: the item with the
  highest count, and among those the one that occurs first in the list (a Counter keeps
  insertion order and \<^verbatim>\<open>most_common(1)\<close> takes the first maximum).
\<close>

definition most_frequent_item :: "'a list \<Rightarrow> 'a option" where
  "most_frequent_item lst =
     (case lst of
        [] \<Rightarrow> None
      | x # xs \<Rightarrow>
          Some (foldl (\<lambda>best y. if count_list lst y > count_list lst best then y else best)
                  x xs))"

text \<open>\<^verbatim>\<open>any(s.lower() == target_string.lower() for s in string_list)\<close>\<close>

definition is_string_in_list :: "string \<Rightarrow> string list \<Rightarrow> bool" where
  "is_string_in_list target_string string_list =
     list_ex (\<lambda>s. lower s = lower target_string) string_list"

section \<open>NumPy: mean, median, average\<close>

text \<open>
  The three NumPy functions \<open>aggregate_base_reasonings\<close> calls, on a list of floats, over
  the reals.  On the empty list \<^verbatim>\<open>np.mean\<close> and \<^verbatim>\<open>np.median\<close> warn and return
  NaN.  \<^verbatim>\<open>np.average(a, weights=w)\<close> is the mean when \<open>w\<close> is None, raises TypeError
  when the shapes differ and ZeroDivisionError when the weights sum to zero.
\<close>

definition np_mean :: "real list \<Rightarrow> prediction" where
  "np_mean xs = (if xs = [] then NaN else Number (sum_list xs / of_nat (length xs)))"

definition np_median :: "real list \<Rightarrow> prediction" where
  "np_median xs =
     (if xs = [] then NaN
      else
        (let s = sort xs; n = length xs in
         if odd n then Number (s ! (n div 2))
         else Number ((s ! (n div 2 - 1) + s ! (n div 2)) / 2)))"

definition np_average :: "real list \<Rightarrow> real list option \<Rightarrow> error + prediction" where
  "np_average xs weights =
     (case weights of
        None \<Rightarrow> Inr (np_mean xs)
      | Some w \<Rightarrow>
          if length w \<noteq> length xs then Inl TypeError
          else if sum_list w = 0 then Inl ZeroDivisionError
          else Inr (Number (sum_list (map2 (*) xs w) / sum_list w)))"

section \<open>ensemble.py: aggregate_base_reasonings\<close>

text \<open>\<^verbatim>\<open>str(n)\<close> for a natural number, and \<^verbatim>\<open>sep.join(xs)\<close>.\<close>

function str_nat :: "nat \<Rightarrow> string" where
  "str_nat n =
     (if n < 10 then [''0123456789'' ! n]
      else str_nat (n div 10) @ [''0123456789'' ! (n mod 10)])"
  by pat_completeness auto
termination
  by (relation "measure id") auto

fun join :: "string \<Rightarrow> string list \<Rightarrow> string" where
  "join sep [] = []"
| "join sep [x] = x"
| "join sep (x # y # ys) = x @ sep @ join sep (y # ys)"

text \<open>
  \<^verbatim>\<open>
  for i, reasoning in enumerate(reasonings):
      reason_str = f"Response from forecaster {i + 1}:\n{reasoning}"
      concat_reasonings.append(reason_str)
  return "---\n" + "\n\n-\n".join(concat_reasonings) + "\n---"
  \<close>
\<close>

definition concatenate_reasonings :: "string list \<Rightarrow> string" where
  "concatenate_reasonings reasonings =
     ''---'' @ [CHR 0x0A] @
     join [CHR 0x0A, CHR 0x0A, CHR ''-'', CHR 0x0A]
       (map (\<lambda>(i, reasoning).
               ''Response from forecaster '' @ str_nat (i + 1) @ '':'' @ [CHR 0x0A] @ reasoning)
          (enumerate 0 reasonings)) @
     [CHR 0x0A] @ ''---''"

text \<open>The dictionary \<open>aggregate_base_reasonings\<close> returns.\<close>

record aggregation =
  base_reasonings :: "string list list"
  base_predictions :: "prediction list list"
  meta_prediction :: prediction
  meta_prompt :: "string option"
  meta_reasoning :: "string option"

text \<open>A list of results in order; the first exception raised is the outcome.\<close>

fun sequence_sum :: "(error + 'a) list \<Rightarrow> error + 'a list" where
  "sequence_sum [] = Inr []"
| "sequence_sum (Inl e # rs) = Inl e"
| "sequence_sum (Inr x # rs) = map_sum id ((#) x) (sequence_sum rs)"

text \<open>
  \<^verbatim>\<open>
  for base_reasonings_list in base_reasonings:
      base_predictions = [string_utils.extract_prediction(reasoning,
          answer_type=answer_type, end_words=end_words) for reasoning in base_reasonings_list]
      all_base_predictions.append(base_predictions)
  \<close>
\<close>

definition all_predictions ::
  "string list list \<Rightarrow> string \<Rightarrow> string list \<Rightarrow> error + prediction list list" where
  "all_predictions reasonings answer_type end_words =
     sequence_sum
       (map (\<lambda>base_reasonings_list.
               sequence_sum
                 (map (\<lambda>reasoning. extract_prediction reasoning answer_type end_words)
                    base_reasonings_list))
          reasonings)"

text \<open>The floats in a list of predictions (all of it, when the answer type is probability).\<close>

definition floats_of :: "prediction list \<Rightarrow> real list" where
  "floats_of ps = List.map_filter (\<lambda>p. case p of Number x \<Rightarrow> Some x | _ \<Rightarrow> None) ps"

text \<open>
  \<^verbatim>\<open>
  if aggregation_method == "mean" or aggregation_method is None:
      meta_prediction = np.mean(flattened_all_base_predictions)
  if aggregation_method == "vote-or-median":
      meta_prediction = np.median(flattened_all_base_predictions)
  if aggregation_method == "weighted-mean":
      meta_prediction = np.average(flattened_all_base_predictions, weights=weights)
  \<close>
  With any other method the variable is never assigned, and reading it raises
  UnboundLocalError.
\<close>

definition aggregate_probabilities ::
  "string option \<Rightarrow> real list option \<Rightarrow> real list \<Rightarrow> error + prediction" where
  "aggregate_probabilities aggregation_method weights xs =
     (if aggregation_method = Some ''mean'' \<or> aggregation_method = None then Inr (np_mean xs)
      else if aggregation_method = Some ''vote-or-median'' then Inr (np_median xs)
      else if aggregation_method = Some ''weighted-mean'' then np_average xs weights
      else Inl UnboundLocalError)"

text \<open>
  \<^verbatim>\<open>
  if meta_prediction is None or meta_prediction < 0.0 or meta_prediction > 1.0:
      meta_prediction = 0.5
  \<close>
  Both comparisons are false on NaN.  (The argument is always a float or NaN.)
\<close>

definition clamp_probability :: "prediction \<Rightarrow> prediction" where
  "clamp_probability p =
     (case p of
        Number x \<Rightarrow> if x < 0 \<or> x > 1 then Number (1 / 2) else Number x
      | NaN \<Rightarrow> NaN
      | PyNone \<Rightarrow> Number (1 / 2)
      | Word w \<Rightarrow> Word w)"

text \<open>
  \<^verbatim>\<open>
  if meta_prediction is None or not string_utils.is_string_in_list(meta_prediction, end_words):
      meta_prediction = "Slightly Unlikely"
  \<close>
  (The argument is always a token or None.)
\<close>

definition token_or_default :: "string list \<Rightarrow> prediction \<Rightarrow> prediction" where
  "token_or_default end_words p =
     (case p of
        Word w \<Rightarrow> if is_string_in_list w end_words then Word w else Word ''Slightly Unlikely''
      | _ \<Rightarrow> Word ''Slightly Unlikely'')"

text \<open>
  \<open>aggregate_base_reasonings\<close>.  Two collaborators are parameters: \<open>render\<close> is
  \<^verbatim>\<open>string_utils.get_prompt\<close> applied to the meta prompt template and the question
  fields, as a function of the concatenated reasonings (it raises when the template
  does not fit its fields); \<open>llm\<close> is \<^verbatim>\<open>model_eval.get_response_from_model\<close> for the
  meta model, as a function of the prompt (it raises on an unknown model name).  The
  result is the outcome (the returned dictionary or the exception raised) and the list
  of prompts sent to the meta model.
\<close>

definition aggregate_base_reasonings ::
  "(string \<Rightarrow> error + string) \<Rightarrow> (string \<Rightarrow> error + string) \<Rightarrow> string list list \<Rightarrow>
   string option \<Rightarrow> string \<Rightarrow> real list option \<Rightarrow> string list \<Rightarrow>
   (error + aggregation) \<times> string list" where
  "aggregate_base_reasonings render llm reasonings aggregation_method answer_type weights
     end_words =
     (if reasonings = [] then (Inl AssertionError, [])
      else
        (case all_predictions reasonings answer_type end_words of
           Inl e \<Rightarrow> (Inl e, [])
         | Inr all_base_predictions \<Rightarrow>
             (let flattened_all_base_predictions = concat all_base_predictions;
                  result = (\<lambda>prediction prompt reasoning.
                     \<lparr>base_reasonings = reasonings,
                      base_predictions = all_base_predictions,
                      meta_prediction = prediction,
                      meta_prompt = prompt,
                      meta_reasoning = reasoning\<rparr>)
              in
              if length flattened_all_base_predictions = 1
              then (Inr (result (flattened_all_base_predictions ! 0) None None), [])
              else if answer_type = ''probability'' \<and> aggregation_method \<noteq> Some ''meta'' then
                (case aggregate_probabilities aggregation_method weights
                        (floats_of flattened_all_base_predictions) of
                   Inl e \<Rightarrow> (Inl e, [])
                 | Inr prediction \<Rightarrow> (Inr (result (clamp_probability prediction) None None), []))
              else if answer_type = ''tokens'' \<and> aggregation_method = Some ''vote-or-median'' then
                (Inr (result
                        (token_or_default end_words
                           (case most_frequent_item flattened_all_base_predictions of
                              None \<Rightarrow> PyNone
                            | Some prediction \<Rightarrow> prediction))
                        None None),
                 [])
              else
                (case render (concatenate_reasonings (concat reasonings)) of
                   Inl e \<Rightarrow> (Inl e, [])
                 | Inr meta_full_prompt \<Rightarrow>
                     (case llm meta_full_prompt of
                        Inl e \<Rightarrow> (Inl e, [meta_full_prompt])
                      | Inr response \<Rightarrow>
                          if answer_type = ''probability'' then
                            (Inr (result
                                    (clamp_probability
                                       (Number (extract_probability_with_stars response)))
                                    (Some meta_full_prompt) (Some response)),
                             [meta_full_prompt])
                          else if answer_type = ''tokens'' then
                            (Inr (result
                                    (token_or_default end_words
                                       (token_result (find_end_word response end_words 50)))
                                    (Some meta_full_prompt) (Some response)),
                             [meta_full_prompt])
                          else (Inl UnboundLocalError, [meta_full_prompt]))))))"

text \<open>
  The lowercased links and titles of a list of articles: what \<open>unique_urls\<close> and
  \<open>unique_titles\<close> hold when \<open>unique_articles\<close> is that list.
\<close>

definition link_keys :: "article list \<Rightarrow> string set" where
  "link_keys as = {lower l | l. \<exists>a\<in>set as. canonical_link a = Some l}"

definition title_keys :: "article list \<Rightarrow> string set" where
  "title_keys as = {lower t | t. \<exists>a\<in>set as. title a = Some t}"

text \<open>The test of the loop on one article, given the articles retained so far.\<close>

definition is_new :: "article list \<Rightarrow> article \<Rightarrow> bool" where
  "is_new kept a =
     (case (title a, canonical_link a) of
        (Some t, Some l) \<Rightarrow> lower l \<notin> link_keys kept \<and> lower t \<notin> title_keys kept
      | _ \<Rightarrow> False)"

section \<open>information_retrieval.py: the retrieval entry points\<close>

text \<open>
  The providers are parameters.  \<open>newscatcher_key\<close> is \<^verbatim>\<open>NEWSCASTCHER_KEY\<close> of
  config/keys.py (None when unset); \<open>get_search\<close> is the Newscatcher client's search
  (query, from, to); \<open>get_news\<close> is \<^verbatim>\<open>GNews(...).get_news\<close> (query, start and end
  date, max_results); \<open>get_full_article\<close> is \<^verbatim>\<open>GNews().get_full_article\<close>;
  \<open>irretrievable_sites\<close> is \<^verbatim>\<open>IRRETRIEVABLE_SITES\<close>.  A Newscatcher entry is
  given with the article object \<^verbatim>\<open>NewscatcherArticle\<close> builds from it.
\<close>

record nc_item =
  nc_summary :: "string option"
  nc_article :: article

record nc_response =
  nc_status :: string
  nc_articles :: "nc_item option list"

record gnews_item =
  gn_url :: string
  gn_publisher_href :: "string option"
  gn_search_term :: string

record providers =
  newscatcher_key :: "string option"
  get_search :: "string \<Rightarrow> string \<Rightarrow> string \<Rightarrow> error + nc_response"
  get_news :: "string \<Rightarrow> date \<Rightarrow> date \<Rightarrow> nat \<Rightarrow> error + gnews_item option list"
  get_full_article :: "string \<Rightarrow> article option"
  irretrievable_sites :: "string list"

datatype provider_call =
    NewscatcherSearch string
  | GNewsSearch string
  | GNewsFullArticle string

text \<open>\<^verbatim>\<open>s.replace(old, "")\<close>, and \<open>clean_search_queries\<close> on one query.\<close>

definition remove_all :: "string \<Rightarrow> string \<Rightarrow> string" where
  "remove_all old s = concat (split_on old s)"

definition characters_to_remove :: "string list" where
  "characters_to_remove =
     [''['', '']'', ''/'', [CHR 0x5C, CHR 0x5C], ''%5B'', ''%5D'', ''%2F'', ''%5C'', '':'',
      ''%3A'', ''^'', ''%5E'']"

definition clean_search_query :: "string \<Rightarrow> string" where
  "clean_search_query q = foldl (\<lambda>q' c. remove_all c q') q characters_to_remove"

text \<open>\<^verbatim>\<open>any(site in url for site in site_list)\<close>\<close>

definition is_irretrievable_site :: "string list \<Rightarrow> string \<Rightarrow> bool" where
  "is_irretrievable_site site_list url = list_ex (\<lambda>site. contains site url) site_list"

text \<open>
  The loop of \<open>get_newscatcher_articles\<close> over the search terms: one provider call for
  each term; a call that raises is logged and skipped.
\<close>

definition newscatcher_keep :: "nat \<Rightarrow> nc_item \<Rightarrow> bool" where
  "newscatcher_keep length_threshold it =
     (case nc_summary it of None \<Rightarrow> False | Some summary \<Rightarrow> length summary > length_threshold)"

fun newscatcher_loop ::
  "providers \<Rightarrow> string list \<Rightarrow> string \<Rightarrow> string \<Rightarrow> nat \<Rightarrow> nat \<Rightarrow>
   article list \<times> provider_call list" where
  "newscatcher_loop P [] date_from date_to num_articles length_threshold = ([], [])"
| "newscatcher_loop P (q # qs) date_from date_to num_articles length_threshold =
     (let articles =
            (case get_search P q date_from date_to of
               Inl e \<Rightarrow> []
             | Inr response \<Rightarrow>
                 if nc_status response \<noteq> ''No matches for your search.''
                 then map (\<lambda>it. (nc_article it)\<lparr>search_term := q\<rparr>)
                        (filter (newscatcher_keep length_threshold)
                           (List.map_filter id (take num_articles (nc_articles response))))
                 else []);
          (rest, calls) = newscatcher_loop P qs date_from date_to num_articles length_threshold
      in (articles @ rest, NewscatcherSearch q # calls))"

text \<open>
  \<open>get_newscatcher_articles\<close>: the assertion on the number of dates, the key check, the
  date-range check, the empty-query check, then the loop and the deduplication.
\<close>

definition get_newscatcher_articles ::
  "providers \<Rightarrow> string list \<Rightarrow> string list \<Rightarrow> nat \<Rightarrow> nat \<Rightarrow>
   (error + article list) \<times> provider_call list" where
  "get_newscatcher_articles P search_terms retrieval_dates num_articles length_threshold =
     (if length retrieval_dates \<noteq> 2 then (Inl AssertionError, [])
      else if newscatcher_key P = None \<or> newscatcher_key P = Some [] then (Inr [], [])
      else
        (case is_more_recent (retrieval_dates ! 0) (retrieval_dates ! 1) False of
           Inl e \<Rightarrow> (Inl e, [])
         | Inr more_recent \<Rightarrow>
             if \<not> more_recent then (Inr [], [])
             else if search_terms = [] then (Inr [], [])
             else
               (let (retrieved_articles, calls) =
                      newscatcher_loop P (map clean_search_query search_terms)
                        (retrieval_dates ! 0) (retrieval_dates ! 1) num_articles
                        length_threshold
                in (Inr (deduplicate_articles retrieved_articles), calls))))"

text \<open>
  \<^verbatim>\<open>int(s)\<close> on the pieces of a date string (surrounding whitespace and a plus
  sign are accepted), and \<open>convert_date_string_to_tuple\<close>:
  \<^verbatim>\<open>
  parts = date_string.split("-")
  assert len(parts) == 3, "Date string must be in 'year-month-day' format."
  return tuple(map(int, parts))
  \<close>
\<close>

definition strip :: "string \<Rightarrow> string" where
  "strip s = rev (dropWhile is_space (rev (dropWhile is_space s)))"

definition py_int :: "string \<Rightarrow> error + nat" where
  "py_int s =
     (let t = strip s; u = (if t \<noteq> [] \<and> hd t = CHR ''+'' then tl t else t)
      in if isnumeric u then Inr (nat_of_digits u) else Inl ValueError)"

definition convert_date_string_to_tuple :: "string \<Rightarrow> error + date" where
  "convert_date_string_to_tuple date_string =
     (case split_on ''-'' date_string of
        [a, b, c] \<Rightarrow>
          (case (py_int a, py_int b, py_int c) of
             (Inr y, Inr m, Inr d) \<Rightarrow> Inr (y, m, d)
           | _ \<Rightarrow> Inl ValueError)
      | _ \<Rightarrow> Inl AssertionError)"

text \<open>
  \<open>get_gnews_articles\<close>: for each term a GNews client is built from the two dates and
  searched once; an exception of the provider is not caught.
\<close>

definition gnews_keep :: "providers \<Rightarrow> gnews_item \<Rightarrow> bool" where
  "gnews_keep P it =
     (case gn_publisher_href it of
        None \<Rightarrow> False
      | Some href \<Rightarrow> \<not> is_irretrievable_site (irretrievable_sites P) href)"

fun gnews_loop ::
  "providers \<Rightarrow> string list \<Rightarrow> string \<Rightarrow> string \<Rightarrow> nat \<Rightarrow>
   (error + gnews_item list list) \<times> provider_call list" where
  "gnews_loop P [] date_from date_to max_results = (Inr [], [])"
| "gnews_loop P (q # qs) date_from date_to max_results =
     (case convert_date_string_to_tuple date_from of
        Inl e \<Rightarrow> (Inl e, [])
      | Inr start_date \<Rightarrow>
          (case convert_date_string_to_tuple date_to of
             Inl e \<Rightarrow> (Inl e, [])
           | Inr end_date \<Rightarrow>
               (case get_news P q start_date end_date max_results of
                  Inl e \<Rightarrow> (Inl e, [GNewsSearch q])
                | Inr found \<Rightarrow>
                    (let articles = map (\<lambda>it. it\<lparr>gn_search_term := q\<rparr>)
                                      (filter (gnews_keep P) (List.map_filter id found));
                         (rest, calls) = gnews_loop P qs date_from date_to max_results
                     in (map_sum id ((#) articles) rest, GNewsSearch q # calls)))))"

definition get_gnews_articles ::
  "providers \<Rightarrow> string list \<Rightarrow> string list \<Rightarrow> nat \<Rightarrow>
   (error + gnews_item list list) \<times> provider_call list" where
  "get_gnews_articles P search_terms retrieval_dates max_results =
     (if length retrieval_dates \<noteq> 2 then (Inl AssertionError, [])
      else
        (case is_more_recent (retrieval_dates ! 0) (retrieval_dates ! 1) False of
           Inl e \<Rightarrow> (Inl e, [])
         | Inr more_recent \<Rightarrow>
             if \<not> more_recent then (Inr [], [])
             else gnews_loop P search_terms (retrieval_dates ! 0) (retrieval_dates ! 1)
                    max_results))"

text \<open>
  \<open>retrieve_gnews_articles_fulldata\<close>: for each group, the full text of each article
  not seen before is fetched until \<open>num_articles\<close> of the group are kept.  The state of
  the two loops is the set of urls seen and the number of articles added in the group.
  \<^verbatim>\<open>
  for article in articles_group:
      if articles_added >= num_articles: break
      if article["url"] in unique_urls: continue
      else: unique_urls.add(article["url"])
      full_article = google_news.get_full_article(article["url"])
      if (full_article is not None and full_article.text_cleaned
              and full_article.publish_date
              and len(full_article.text_cleaned) > length_threshold):
          full_article.search_term = article["search_term"]
          fulltext_articles.append(full_article); articles_added += 1
  \<close>
\<close>

fun fulldata_group ::
  "providers \<Rightarrow> nat \<Rightarrow> nat \<Rightarrow> gnews_item list \<Rightarrow> nat \<Rightarrow> string set \<Rightarrow>
   article list \<times> string set \<times> provider_call list" where
  "fulldata_group P num_articles length_threshold [] articles_added unique_urls =
     ([], unique_urls, [])"
| "fulldata_group P num_articles length_threshold (it # its) articles_added unique_urls =
     (if articles_added \<ge> num_articles then ([], unique_urls, [])
      else if gn_url it \<in> unique_urls
      then fulldata_group P num_articles length_threshold its articles_added unique_urls
      else
        (let kept =
               (case get_full_article P (gn_url it) of
                  None \<Rightarrow> []
                | Some full_article \<Rightarrow>
                    if text_cleaned full_article \<noteq> [] \<and> publish_date full_article \<noteq> None \<and>
                       length (text_cleaned full_article) > length_threshold
                    then [full_article\<lparr>search_term := gn_search_term it\<rparr>]
                    else []);
             (rest, urls, calls) =
               fulldata_group P num_articles length_threshold its
                 (articles_added + length kept) (insert (gn_url it) unique_urls)
         in (kept @ rest, urls, GNewsFullArticle (gn_url it) # calls)))"

fun fulldata_groups ::
  "providers \<Rightarrow> nat \<Rightarrow> nat \<Rightarrow> gnews_item list list \<Rightarrow> string set \<Rightarrow>
   article list \<times> provider_call list" where
  "fulldata_groups P num_articles length_threshold [] unique_urls = ([], [])"
| "fulldata_groups P num_articles length_threshold (g # gs) unique_urls =
     (let (found, urls, calls) = fulldata_group P num_articles length_threshold g 0 unique_urls;
          (rest, calls') = fulldata_groups P num_articles length_threshold gs urls
      in (found @ rest, calls @ calls'))"

definition retrieve_gnews_articles_fulldata ::
  "providers \<Rightarrow> gnews_item list list \<Rightarrow> nat \<Rightarrow> nat \<Rightarrow> article list \<times> provider_call list" where
  "retrieve_gnews_articles_fulldata P retrieved_articles num_articles length_threshold =
     fulldata_groups P num_articles length_threshold retrieved_articles {}"

text \<open>\<^verbatim>\<open>xs[i]\<close>, which raises IndexError out of range.\<close>

definition item_at :: "'a list \<Rightarrow> nat \<Rightarrow> error + 'a" where
  "item_at xs i = (if i < length xs then Inr (xs ! i) else Inl IndexError)"

text \<open>
  \<open>get_articles_from_all_sources\<close>.  The query lists may be None.
  \<^verbatim>\<open>
  if not time_utils.is_more_recent(retrieval_dates[0], retrieval_dates[1]):
      logger.error(...)
      return []
  if queries_nc is not None and len(queries_nc) > 0:
      articles_nc = get_newscatcher_articles(queries_nc, retrieval_dates,
          num_articles=num_articles, length_threshold=length_threshold)
  else: articles_nc = []
  if queries_gnews is not None and len(queries_gnews) > 0:
      articles_gnews = get_gnews_articles(queries_gnews, retrieval_dates,
          max_results=num_articles)
      articles_gnews = retrieve_gnews_articles_fulldata(articles_gnews,
          num_articles=num_articles, length_threshold=length_threshold)
  else: articles_gnews = []
  return deduplicate_articles(articles_nc + articles_gnews)
  \<close>
\<close>

definition get_articles_from_all_sources ::
  "providers \<Rightarrow> string list option \<Rightarrow> string list option \<Rightarrow> string list \<Rightarrow> nat \<Rightarrow> nat \<Rightarrow>
   (error + article list) \<times> provider_call list" where
  "get_articles_from_all_sources P queries_gnews queries_nc retrieval_dates num_articles
     length_threshold =
     (case (item_at retrieval_dates 0, item_at retrieval_dates 1) of
        (Inr date_from, Inr date_to) \<Rightarrow>
          (case is_more_recent date_from date_to False of
             Inl e \<Rightarrow> (Inl e, [])
           | Inr more_recent \<Rightarrow>
               if \<not> more_recent then (Inr [], [])
               else
                 (let (nc, calls_nc) =
                        (if queries_nc \<noteq> None \<and> queries_nc \<noteq> Some []
                         then get_newscatcher_articles P (the queries_nc) retrieval_dates
                                num_articles length_threshold
                         else (Inr [], []))
                  in case nc of
                       Inl e \<Rightarrow> (Inl e, calls_nc)
                     | Inr articles_nc \<Rightarrow>
                         if queries_gnews \<noteq> None \<and> queries_gnews \<noteq> Some [] then
                           (case get_gnews_articles P (the queries_gnews) retrieval_dates
                                   num_articles of
                              (Inl e, calls_g) \<Rightarrow> (Inl e, calls_nc @ calls_g)
                            | (Inr found, calls_g) \<Rightarrow>
                                (let (articles_gnews, calls_f) =
                                       retrieve_gnews_articles_fulldata P found num_articles
                                         length_threshold
                                 in (Inr (deduplicate_articles (articles_nc @ articles_gnews)),
                                     calls_nc @ calls_g @ calls_f)))
                         else (Inr (deduplicate_articles articles_nc), calls_nc)))
      | _ \<Rightarrow> (Inl IndexError, []))"

section \<open>summarize.py: split_text_into_chunks, recursive_summarize\<close>










section \<open>Properties\<close>

lemma split_ws_from_no_space:
  "\<not> list_ex is_space s \<Longrightarrow> split_ws_from cur s = (if cur @ s = [] then [] else [cur @ s])"
  by (induction s arbitrary: cur) auto

text \<open>
  C7.  The claim: for every non-empty response, \<open>extract_rating_from_response\<close> returns
  a number, never None, and returns the default 1 on any parse failure.  The code has the
  default only inside the branch where a \<^verbatim>\<open>Rating:\<close> marker is present: on a
  response whose first word is not numeric and that has no marker, it falls off its end
  and returns None.
\<close>

theorem extract_rating_no_marker_returns_None:
  "extract_rating_from_response ''Relevant article'' = Inr None"
  by (simp add: extract_rating_from_response_def split_ws_def split_on_def first_item_def
      is_space_def isnumeric_def is_digit_def)

subsection \<open>find_end_word and extract_prediction\<close>



lemma sorted_desc_split:
  assumes "sorted_desc key xs = as @ w # bs" "v \<in> set bs"
  shows "key v \<le> key w"
proof -
  have "sort_key key (rev xs) = rev bs @ w # rev as"
    using assms(1) unfolding sorted_desc_def
    by (metis rev_append rev_rev_ident rev.simps(2) append_assoc append_Cons append_Nil)
  moreover have "sorted (map key (sort_key key (rev xs)))" by simp
  ultimately have "sorted (map key (rev bs) @ key w # map key (rev as))" by simp
  then show ?thesis using assms(2) by (auto simp: sorted_append)
qed

lemma find_end_word_Some:
  assumes "find_end_word p ws n = Some w"
  shows "w \<in> set ws \<and> contains w (window p n) \<and>
         (\<forall>v\<in>set ws. contains v (window p n) \<longrightarrow> word_count v \<le> word_count w)"
proof -
  let ?P = "\<lambda>e. contains e (window p n)"
  let ?S = "sorted_desc word_count ws"
  from assms obtain i where i: "i < length ?S" "?P (?S ! i)" "w = ?S ! i" "\<forall>j<i. \<not> ?P (?S ! j)"
    unfolding find_end_word_def find_Some_iff by blast
  have setS: "set ?S = set ws" by (simp add: sorted_desc_def)
  have split: "?S = take i ?S @ w # drop (Suc i) ?S"
    using i(1,3) by (simp add: id_take_nth_drop)
  have "w \<in> set ws" using i(1,3) setS nth_mem by blast
  moreover have "?P w" using i by simp
  moreover have "word_count v \<le> word_count w" if v: "v \<in> set ws" "?P v" for v
  proof -
    from v(1) setS have "v \<in> set ?S" by simp
    then have "v \<in> set (take i ?S) \<or> v = w \<or> v \<in> set (drop (Suc i) ?S)"
      using split by (metis Un_iff set_ConsD set_append)
    moreover have "v \<notin> set (take i ?S)"
    proof
      assume "v \<in> set (take i ?S)"
      then obtain j where "j < length (take i ?S)" "take i ?S ! j = v"
        by (auto simp: in_set_conv_nth)
      then have "j < i" "?S ! j = v" by auto
      with i(4) v(2) show False by blast
    qed
    ultimately show ?thesis using sorted_desc_split[OF split] by auto
  qed
  ultimately show ?thesis by blast
qed





subsection \<open>_sort_and_filter_articles\<close>

text \<open>
  C9.  For every list of articles and every sort key other than relevance and date,
  \<open>_sort_and_filter_articles\<close> reports the unrecognized key: it gives
  \<^verbatim>\<open>logger.error\<close> the message naming the key, and returns the filtered articles in
  their input order.
\<close>

theorem sort_and_filter_reports_unrecognized_key:
  "sort_by \<noteq> ''relevance'' \<Longrightarrow> sort_by \<noteq> ''date'' \<Longrightarrow>
   sort_and_filter_articles articles default_date threshold sort_by =
     Inr ([''Not a valid sorting criterion: '' @ sort_by],
          filter (keeps_rating threshold) articles)"
  by (simp add: sort_and_filter_articles_def)

theorem sort_and_filter_reports_unrecognized_key_witness:
  "''rating'' \<noteq> ''relevance'' \<and> ''rating'' \<noteq> ''date'' \<and>
   sort_and_filter_articles [] ''2024-01-01'' 4 ''rating'' =
     Inr ([''Not a valid sorting criterion: rating''], [])"
proof -
  have h: "''rating'' \<noteq> ''relevance''" "''rating'' \<noteq> ''date''" by simp_all
  from sort_and_filter_reports_unrecognized_key[OF h, of "[]" "''2024-01-01''" 4]
  show ?thesis using h by simp
qed

subsection \<open>deduplicate_articles\<close>

lemma link_keys_snoc:
  "canonical_link a = Some l \<Longrightarrow> link_keys (kept @ [a]) = insert (lower l) (link_keys kept)"
  by (auto simp: link_keys_def)

lemma title_keys_snoc:
  "title a = Some t \<Longrightarrow> title_keys (kept @ [a]) = insert (lower t) (title_keys kept)"
  by (auto simp: title_keys_def)

lemma link_keys_I: "b \<in> set as \<Longrightarrow> canonical_link b = Some l \<Longrightarrow> lower l \<in> link_keys as"
  by (auto simp: link_keys_def)

lemma title_keys_I: "b \<in> set as \<Longrightarrow> title b = Some t \<Longrightarrow> lower t \<in> title_keys as"
  by (auto simp: title_keys_def)

lemma dedup_loop_step:
  "dedup_loop (a # as) kept (link_keys kept) (title_keys kept) =
     (let kept' = (if is_new kept a then kept @ [a] else kept)
      in dedup_loop as kept' (link_keys kept') (title_keys kept'))"
  by (auto simp: is_new_def link_keys_snoc title_keys_snoc split: option.splits)

lemma dedup_loop_append:
  "dedup_loop (xs @ ys) kept (link_keys kept) (title_keys kept) =
     (let kept' = dedup_loop xs kept (link_keys kept) (title_keys kept)
      in dedup_loop ys kept' (link_keys kept') (title_keys kept'))"
proof (induction xs arbitrary: kept)
  case Nil
  then show ?case by simp
next
  case (Cons a xs)
  show ?case
    unfolding append_Cons dedup_loop_step Let_def using Cons.IH by (simp add: Let_def)
qed

lemma dedup_loop_extends:
  "\<exists>more. dedup_loop xs kept (link_keys kept) (title_keys kept) = kept @ more \<and> subseq more xs"
proof (induction xs arbitrary: kept)
  case Nil
  then show ?case by simp
next
  case (Cons a xs)
  show ?case
  proof (cases "is_new kept a")
    case True
    obtain more where "dedup_loop xs (kept @ [a]) (link_keys (kept @ [a])) (title_keys (kept @ [a]))
        = (kept @ [a]) @ more" "subseq more xs"
      using Cons.IH[of "kept @ [a]"] by blast
    then have "dedup_loop (a # xs) kept (link_keys kept) (title_keys kept) = kept @ (a # more)"
      "subseq (a # more) (a # xs)"
      unfolding dedup_loop_step using True by (simp_all add: Let_def)
    then show ?thesis by blast
  next
    case False
    obtain more where "dedup_loop xs kept (link_keys kept) (title_keys kept) = kept @ more"
      "subseq more xs"
      using Cons.IH[of kept] by blast
    then have "dedup_loop (a # xs) kept (link_keys kept) (title_keys kept) = kept @ more"
      "subseq more (a # xs)"
      unfolding dedup_loop_step using False by (simp_all add: Let_def list_emb_Cons)
    then show ?thesis by blast
  qed
qed

lemma keys_empty: "link_keys [] = {}" "title_keys [] = {}"
  by (simp_all add: link_keys_def title_keys_def)

lemma deduplicate_snoc:
  "deduplicate_articles (pre @ [a]) =
     deduplicate_articles pre @ (if is_new (deduplicate_articles pre) a then [a] else [])"
proof -
  have "deduplicate_articles (pre @ [a]) =
      dedup_loop (pre @ [a]) [] (link_keys []) (title_keys [])"
    by (simp add: deduplicate_articles_def keys_empty)
  also have "\<dots> = (let kept' = dedup_loop pre [] (link_keys []) (title_keys [])
      in dedup_loop [a] kept' (link_keys kept') (title_keys kept'))"
    by (rule dedup_loop_append)
  also have "\<dots> = (let kept' = deduplicate_articles pre
      in dedup_loop [a] kept' (link_keys kept') (title_keys kept'))"
    by (simp add: deduplicate_articles_def keys_empty)
  also have "\<dots> = deduplicate_articles pre @ (if is_new (deduplicate_articles pre) a then [a] else [])"
    unfolding Let_def dedup_loop_step by simp
  finally show ?thesis .
qed

lemma deduplicate_append:
  "\<exists>more. deduplicate_articles (pre @ post) = deduplicate_articles pre @ more \<and> subseq more post"
proof -
  have "deduplicate_articles (pre @ post) =
      (let kept' = deduplicate_articles pre
       in dedup_loop post kept' (link_keys kept') (title_keys kept'))"
    using dedup_loop_append[of pre post "[]"] by (simp add: deduplicate_articles_def keys_empty)
  then show ?thesis using dedup_loop_extends[of post "deduplicate_articles pre"] by (simp add: Let_def)
qed

lemma deduplicate_covers:
  assumes "b \<in> set xs" "title b = Some t" "canonical_link b = Some l"
  shows "lower l \<in> link_keys (deduplicate_articles xs) \<or> lower t \<in> title_keys (deduplicate_articles xs)"
  using assms
proof (induction xs rule: rev_induct)
  case Nil
  then show ?case by simp
next
  case (snoc a xs)
  let ?k = "deduplicate_articles xs"
  show ?case
  proof (cases "b \<in> set xs")
    case True
    then have "lower l \<in> link_keys ?k \<or> lower t \<in> title_keys ?k" using snoc by blast
    then show ?thesis
      unfolding deduplicate_snoc by (auto simp: link_keys_def title_keys_def)
  next
    case False
    then have ba: "b = a" using snoc.prems(1) by simp
    show ?thesis
    proof (cases "is_new ?k a")
      case True
      then show ?thesis unfolding deduplicate_snoc using ba snoc.prems
        by (auto simp: link_keys_def)
    next
      case False
      then show ?thesis unfolding deduplicate_snoc using ba snoc.prems
        by (auto simp: is_new_def)
    qed
  qed
qed

lemma deduplicate_distinct:
  "distinct (map (map_option lower \<circ> canonical_link) (deduplicate_articles xs)) \<and>
   distinct (map (map_option lower \<circ> title) (deduplicate_articles xs)) \<and>
   (\<forall>a\<in>set (deduplicate_articles xs). title a \<noteq> None \<and> canonical_link a \<noteq> None)"
proof (induction xs rule: rev_induct)
  case Nil
  then show ?case by (simp add: deduplicate_articles_def)
next
  case (snoc a xs)
  show ?case
  proof (cases "is_new (deduplicate_articles xs) a")
    case True
    then obtain t l where tl: "title a = Some t" "canonical_link a = Some l"
      "lower l \<notin> link_keys (deduplicate_articles xs)" "lower t \<notin> title_keys (deduplicate_articles xs)"
      by (auto simp: is_new_def split: option.splits)
    have "Some (lower l) \<notin> (map_option lower \<circ> canonical_link) ` set (deduplicate_articles xs)"
    proof
      assume "Some (lower l) \<in> (map_option lower \<circ> canonical_link) ` set (deduplicate_articles xs)"
      then obtain b where b: "b \<in> set (deduplicate_articles xs)"
        "map_option lower (canonical_link b) = Some (lower l)" by (metis comp_apply imageE)
      then obtain l' where "canonical_link b = Some l'" "lower l' = lower l"
        by (cases "canonical_link b") auto
      with b(1) have "lower l \<in> link_keys (deduplicate_articles xs)"
        by (metis link_keys_I)
      with tl(3) show False by simp
    qed
    moreover have "Some (lower t) \<notin> (map_option lower \<circ> title) ` set (deduplicate_articles xs)"
    proof
      assume "Some (lower t) \<in> (map_option lower \<circ> title) ` set (deduplicate_articles xs)"
      then obtain b where b: "b \<in> set (deduplicate_articles xs)"
        "map_option lower (title b) = Some (lower t)" by (metis comp_apply imageE)
      then obtain t' where "title b = Some t'" "lower t' = lower t"
        by (cases "title b") auto
      with b(1) have "lower t \<in> title_keys (deduplicate_articles xs)"
        by (metis title_keys_I)
      with tl(4) show False by simp
    qed
    ultimately show ?thesis unfolding deduplicate_snoc using True snoc tl by simp
  next
    case False
    then show ?thesis unfolding deduplicate_snoc using snoc by simp
  qed
qed

text \<open>
  C3, as the code has it.  \<open>deduplicate_articles\<close> keeps the two sets separately: an
  article is retained exactly when its title and link are strings and neither its
  lowercased link nor its lowercased title is that of an article retained before it.
  Articles are retained in input order and never removed later.  So an article whose
  lowercased link and lowercased title both equal those of an earlier article is always
  dropped, and the retained articles have pairwise different lowercased links and
  pairwise different lowercased titles.
\<close>

theorem deduplicate_articles_drops_seen_link_or_title:
  "deduplicate_articles (pre @ [a]) =
     deduplicate_articles pre @ (if is_new (deduplicate_articles pre) a then [a] else []) \<and>
   (\<exists>more. deduplicate_articles (pre @ post) = deduplicate_articles pre @ more \<and> subseq more post) \<and>
   (\<forall>b\<in>set pre. title b \<noteq> None \<and> canonical_link b \<noteq> None \<and>
      map_option lower (canonical_link b) = map_option lower (canonical_link a) \<and>
      map_option lower (title b) = map_option lower (title a) \<longrightarrow>
      deduplicate_articles (pre @ [a]) = deduplicate_articles pre) \<and>
   distinct (map (map_option lower \<circ> canonical_link) (deduplicate_articles pre)) \<and>
   distinct (map (map_option lower \<circ> title) (deduplicate_articles pre))"
proof -
  have dup: "deduplicate_articles (pre @ [a]) = deduplicate_articles pre"
    if b: "b \<in> set pre" "title b \<noteq> None" "canonical_link b \<noteq> None"
      "map_option lower (canonical_link b) = map_option lower (canonical_link a)"
      "map_option lower (title b) = map_option lower (title a)" for b
  proof -
    obtain t l where tl: "title b = Some t" "canonical_link b = Some l" using b(2,3) by auto
    obtain t' l' where tl': "title a = Some t'" "canonical_link a = Some l'"
      "lower l' = lower l" "lower t' = lower t"
      using b(4,5) tl by (cases "title a"; cases "canonical_link a") auto
    have "lower l \<in> link_keys (deduplicate_articles pre) \<or> lower t \<in> title_keys (deduplicate_articles pre)"
      using deduplicate_covers[OF b(1) tl] .
    then have "\<not> is_new (deduplicate_articles pre) a" using tl' by (auto simp: is_new_def)
    then show ?thesis by (simp add: deduplicate_snoc)
  qed
  show ?thesis
    using deduplicate_snoc[of pre a] deduplicate_append[of pre post] dup
      deduplicate_distinct[of pre] by blast
qed

text \<open>An instance: the second copy of an article, in another case, is dropped.\<close>

theorem deduplicate_articles_drops_seen_link_or_title_witness:
  "deduplicate_articles
     ([\<lparr>title = Some ''Storm'', canonical_link = Some ''a.com/1'', publish_date = None,
        relevance_rating = None, text_cleaned = [], search_term = []\<rparr>] @
      [\<lparr>title = Some ''STORM'', canonical_link = Some ''A.com/1'', publish_date = None,
        relevance_rating = None, text_cleaned = [], search_term = []\<rparr>]) =
   deduplicate_articles
     [\<lparr>title = Some ''Storm'', canonical_link = Some ''a.com/1'', publish_date = None,
        relevance_rating = None, text_cleaned = [], search_term = []\<rparr>]"
proof -
  let ?a = "\<lparr>title = Some ''Storm'', canonical_link = Some ''a.com/1'', publish_date = None,
        relevance_rating = None, text_cleaned = [], search_term = []\<rparr>"
  let ?b = "\<lparr>title = Some ''STORM'', canonical_link = Some ''A.com/1'', publish_date = None,
        relevance_rating = None, text_cleaned = [], search_term = []\<rparr>"
  have h: "?a \<in> set [?a]" "title ?a \<noteq> None" "canonical_link ?a \<noteq> None"
    "map_option lower (canonical_link ?a) = map_option lower (canonical_link ?b)"
    "map_option lower (title ?a) = map_option lower (title ?b)"
    by (simp_all add: lower_def lower_char_def)
  from deduplicate_articles_drops_seen_link_or_title[of "[?a]" ?b "[]"]
  have "\<forall>b\<in>set [?a]. title b \<noteq> None \<and> canonical_link b \<noteq> None \<and>
      map_option lower (canonical_link b) = map_option lower (canonical_link ?b) \<and>
      map_option lower (title b) = map_option lower (title ?b) \<longrightarrow>
      deduplicate_articles ([?a] @ [?b]) = deduplicate_articles [?a]"
    by blast
  with h show ?thesis by blast
qed

text \<open>
  C3 as stated fails: the second article has a new (link, title) pair, and is dropped
  because its title alone was seen.
\<close>

theorem deduplicate_articles_new_pair_dropped_counterexample:
  "deduplicate_articles
     [\<lparr>title = Some ''Storm'', canonical_link = Some ''a.com/1'', publish_date = None,
        relevance_rating = None, text_cleaned = [], search_term = []\<rparr>,
      \<lparr>title = Some ''Storm'', canonical_link = Some ''b.com/2'', publish_date = None,
        relevance_rating = None, text_cleaned = [], search_term = []\<rparr>] =
     [\<lparr>title = Some ''Storm'', canonical_link = Some ''a.com/1'', publish_date = None,
        relevance_rating = None, text_cleaned = [], search_term = []\<rparr>] \<and>
   (lower ''a.com/1'', lower ''Storm'') \<noteq> (lower ''b.com/2'', lower ''Storm'')"
  by (simp add: deduplicate_articles_def lower_def lower_char_def)

subsection \<open>extract_probability_with_stars: range\<close>

lemma py_float_nonneg: "py_float s = Some v \<Longrightarrow> 0 \<le> v"
  by (auto simp: py_float_def Let_def split: if_splits)

lemma star_number_nonneg: "v \<in> set (star_number g) \<Longrightarrow> 0 \<le> v"
  by (auto simp: star_number_def split: option.splits if_splits dest!: py_float_nonneg[OF sym])

lemma numbers_in_stars_nonneg: "v \<in> set (numbers_in_stars t) \<Longrightarrow> 0 \<le> v"
  by (auto simp: numbers_in_stars_def dest: star_number_nonneg)

lemma numbers_before_star_nonneg: "v \<in> set (numbers_before_star t) \<Longrightarrow> 0 \<le> v"
  by (auto simp: numbers_before_star_def List.map_filter_def dest: py_float_nonneg)

lemma extract_probability_range:
  "0 \<le> extract_probability_with_stars t \<and> extract_probability_with_stars t \<le> 1"
proof -
  have a: "xs \<noteq> [] \<Longrightarrow> last xs \<in> set xs" for xs :: "real list" by simp
  show ?thesis
    unfolding extract_probability_with_stars_def Let_def
    using numbers_in_stars_nonneg[of _ t] numbers_before_star_nonneg[of _ t] a
    by (simp add: last_in_set)
qed

lemma sequence_sum_Inr: "sequence_sum (map (\<lambda>x. Inr (f x)) xs) = Inr (map f xs)"
  by (induction xs) auto

lemma all_predictions_valid:
  assumes "answer_type = ''probability'' \<or> answer_type = ''tokens''"
  shows "all_predictions reasonings answer_type end_words =
     Inr (map (map (\<lambda>x. if answer_type = ''probability''
                         then Number (extract_probability_with_stars x)
                         else token_result (find_end_word x end_words 50))) reasonings)"
proof -
  let ?f = "\<lambda>x. if answer_type = ''probability'' then Number (extract_probability_with_stars x)
        else token_result (find_end_word x end_words 50)"
  have e: "(\<lambda>x. extract_prediction x answer_type end_words) = (\<lambda>x. Inr (?f x))"
    using assms by (auto simp: extract_prediction_def)
  show ?thesis
    unfolding all_predictions_def e sequence_sum_Inr by simp
qed

subsection \<open>aggregate_base_reasonings\<close>

lemma single_reasoning_outcome:
  assumes "concat reasonings = [r]"
    and "answer_type = ''probability'' \<or> answer_type = ''tokens''"
  shows "\<exists>predictions p.
     all_predictions reasonings answer_type end_words = Inr predictions \<and>
     extract_prediction r answer_type end_words = Inr p \<and>
     aggregate_base_reasonings render llm reasonings aggregation_method answer_type weights
       end_words =
       (Inr \<lparr>base_reasonings = reasonings, base_predictions = predictions,
             meta_prediction = p, meta_prompt = None, meta_reasoning = None\<rparr>, [])"
proof -
  let ?f = "\<lambda>x. if answer_type = ''probability'' then Number (extract_probability_with_stars x)
        else token_result (find_end_word x end_words 50)"
  let ?ps = "map (map ?f) reasonings"
  have ap: "all_predictions reasonings answer_type end_words = Inr ?ps"
    using all_predictions_valid[OF assms(2)] .
  have "concat ?ps = map ?f (concat reasonings)" by (simp add: map_concat)
  then have c: "concat ?ps = [?f r]" using assms(1) by simp
  have ne: "reasonings \<noteq> []" using assms(1) by auto
  have ep: "extract_prediction r answer_type end_words = Inr (?f r)"
    using assms(2) by (auto simp: extract_prediction_def)
  have "aggregate_base_reasonings render llm reasonings aggregation_method answer_type weights
       end_words =
       (Inr \<lparr>base_reasonings = reasonings, base_predictions = ?ps,
             meta_prediction = ?f r, meta_prompt = None, meta_reasoning = None\<rparr>, [])"
    unfolding aggregate_base_reasonings_def using ne by (simp add: ap c Let_def)
  with ap ep show ?thesis by blast
qed

lemma aggregate_meta_path:
  assumes "reasonings \<noteq> []"
    and "all_predictions reasonings answer_type end_words = Inr ps"
    and "length (concat ps) \<noteq> 1"
    and "\<not> (answer_type = ''probability'' \<and> aggregation_method \<noteq> Some ''meta'')"
    and "\<not> (answer_type = ''tokens'' \<and> aggregation_method = Some ''vote-or-median'')"
    and "render (concatenate_reasonings (concat reasonings)) = Inr prompt"
    and "llm prompt = Inr response"
  shows "aggregate_base_reasonings render llm reasonings aggregation_method answer_type weights
       end_words =
     (if answer_type = ''probability'' then
        (Inr \<lparr>base_reasonings = reasonings, base_predictions = ps,
              meta_prediction =
                clamp_probability (Number (extract_probability_with_stars response)),
              meta_prompt = Some prompt, meta_reasoning = Some response\<rparr>, [prompt])
      else if answer_type = ''tokens'' then
        (Inr \<lparr>base_reasonings = reasonings, base_predictions = ps,
              meta_prediction =
                token_or_default end_words (token_result (find_end_word response end_words 50)),
              meta_prompt = Some prompt, meta_reasoning = Some response\<rparr>, [prompt])
      else (Inl UnboundLocalError, [prompt]))"
  unfolding aggregate_base_reasonings_def Let_def
  apply (simp only: assms(1) if_False assms(2) sum.case assms(3) assms(4) assms(5) assms(6) assms(7))
  done

lemma aggregate_meta_path_general:
  assumes "reasonings \<noteq> []"
    and "all_predictions reasonings answer_type end_words = Inr ps"
    and "length (concat ps) \<noteq> 1"
    and "\<not> (answer_type = ''probability'' \<and> aggregation_method \<noteq> Some ''meta'')"
    and "\<not> (answer_type = ''tokens'' \<and> aggregation_method = Some ''vote-or-median'')"
    and "\<not> (answer_type = ''probability'' \<and> aggregation_method' \<noteq> Some ''meta'')"
    and "\<not> (answer_type = ''tokens'' \<and> aggregation_method' = Some ''vote-or-median'')"
  shows "aggregate_base_reasonings render llm reasonings aggregation_method answer_type weights
       end_words =
     aggregate_base_reasonings render llm reasonings aggregation_method' answer_type weights
       end_words"
  unfolding aggregate_base_reasonings_def Let_def
  apply (simp only: assms(1) if_False assms(2) sum.case assms(3) assms(4) assms(5) assms(6) assms(7))
  done

lemma aggregate_probability_path:
  assumes "reasonings \<noteq> []"
    and "all_predictions reasonings ''probability'' end_words = Inr ps"
    and "length (concat ps) \<noteq> 1"
    and "aggregation_method \<noteq> Some ''meta''"
  shows "aggregate_base_reasonings render llm reasonings aggregation_method ''probability''
       weights end_words =
     (case aggregate_probabilities aggregation_method weights (floats_of (concat ps)) of
        Inl e \<Rightarrow> (Inl e, [])
      | Inr prediction \<Rightarrow>
          (Inr \<lparr>base_reasonings = reasonings, base_predictions = ps,
                meta_prediction = clamp_probability prediction,
                meta_prompt = None, meta_reasoning = None\<rparr>, []))"
  unfolding aggregate_base_reasonings_def Let_def
  apply (simp only: assms(1) if_False assms(2) sum.case assms(3) assms(4) simp_thms if_True)
  done


lemma token_or_default_vocabulary:
  "\<exists>w. token_or_default end_words (token_result (find_end_word response end_words n)) = Word w \<and>
       (w \<in> set end_words \<or> w = ''Slightly Unlikely'')"
proof (cases "find_end_word response end_words n")
  case None
  then show ?thesis by (simp add: token_or_default_def token_result_def)
next
  case (Some w)
  then have "w \<in> set end_words" using find_end_word_Some by blast
  then show ?thesis using Some by (simp add: token_or_default_def token_result_def)
qed

lemma floats_of_Number: "floats_of (map (\<lambda>x. Number (f x)) xs) = map f xs"
  by (induction xs) (auto simp: floats_of_def List.map_filter_def)

lemma clamp_probability_range:
  "\<exists>y. clamp_probability (Number x) = Number y \<and> 0 \<le> y \<and> y \<le> 1"
proof (cases "x < 0 \<or> x > 1")
  case True
  then have "clamp_probability (Number x) = Number (1 / 2)" by (simp add: clamp_probability_def)
  moreover have "(0::real) \<le> 1 / 2 \<and> (1::real) / 2 \<le> 1" by simp
  ultimately show ?thesis by blast
next
  case False
  then have "clamp_probability (Number x) = Number x" by (simp add: clamp_probability_def)
  then show ?thesis using False by simp
qed

lemma aggregate_probabilities_Number:
  assumes "xs \<noteq> []" "aggregate_probabilities aggregation_method weights xs = Inr p"
  shows "\<exists>x. p = Number x"
  using assms
  by (auto simp: aggregate_probabilities_def np_mean_def np_median_def np_average_def Let_def
      split: if_splits option.splits)

lemma aggregate_meta_outcome:
  assumes "reasonings \<noteq> []"
    and "all_predictions reasonings answer_type end_words = Inr ps"
    and "length (concat ps) \<noteq> 1"
    and "\<not> (answer_type = ''probability'' \<and> aggregation_method \<noteq> Some ''meta'')"
    and "\<not> (answer_type = ''tokens'' \<and> aggregation_method = Some ''vote-or-median'')"
  shows "aggregate_base_reasonings render llm reasonings aggregation_method answer_type weights
       end_words =
     (case render (concatenate_reasonings (concat reasonings)) of
        Inl e \<Rightarrow> (Inl e, [])
      | Inr meta_full_prompt \<Rightarrow>
          (case llm meta_full_prompt of
             Inl e \<Rightarrow> (Inl e, [meta_full_prompt])
           | Inr response \<Rightarrow>
               if answer_type = ''probability'' then
                 (Inr \<lparr>base_reasonings = reasonings, base_predictions = ps,
                       meta_prediction =
                         clamp_probability (Number (extract_probability_with_stars response)),
                       meta_prompt = Some meta_full_prompt,
                       meta_reasoning = Some response\<rparr>, [meta_full_prompt])
               else if answer_type = ''tokens'' then
                 (Inr \<lparr>base_reasonings = reasonings, base_predictions = ps,
                       meta_prediction =
                         token_or_default end_words
                           (token_result (find_end_word response end_words 50)),
                       meta_prompt = Some meta_full_prompt,
                       meta_reasoning = Some response\<rparr>, [meta_full_prompt])
               else (Inl UnboundLocalError, [meta_full_prompt])))"
  unfolding aggregate_base_reasonings_def Let_def
  apply (simp only: assms(1) if_False assms(2) sum.case assms(3) assms(4) assms(5))
  done

lemma aggregate_probability_in_range:
  assumes "concat reasonings \<noteq> []"
    and "aggregate_base_reasonings render llm reasonings aggregation_method ''probability''
           weights end_words = (Inr result, calls)"
  shows "\<exists>x. meta_prediction result = Number x \<and> 0 \<le> x \<and> x \<le> 1"
proof -
  let ?f = "\<lambda>x. Number (extract_probability_with_stars x)"
  let ?ps = "map (map ?f) reasonings"
  have ap: "all_predictions reasonings ''probability'' end_words = Inr ?ps"
    using all_predictions_valid[of "''probability''" reasonings end_words] by simp
  have c: "concat ?ps = map ?f (concat reasonings)" by (simp only: map_concat)
  have fl: "floats_of (concat ?ps) = map extract_probability_with_stars (concat reasonings)"
    unfolding c by (rule floats_of_Number)
  have ne: "reasonings \<noteq> []" using assms(1) by auto
  show ?thesis
  proof (cases "length (concat reasonings) = 1")
    case True
    then obtain r where r: "concat reasonings = [r]" by (cases "concat reasonings") auto
    have v: "''probability'' = ''probability'' \<or> ''probability'' = ''tokens''" by simp
    from single_reasoning_outcome[OF r v, of end_words render llm
        aggregation_method weights]
    obtain p where "extract_prediction r ''probability'' end_words = Inr p"
      "meta_prediction result = p"
      unfolding assms(2) by auto
    then have "meta_prediction result = ?f r" by (simp add: extract_prediction_def)
    then show ?thesis using extract_probability_range by auto
  next
    case False
    then have len: "length (concat ?ps) \<noteq> 1" unfolding c by simp
    show ?thesis
    proof (cases "aggregation_method \<noteq> Some ''meta''")
      case True
      from assms(2) obtain p where p: "meta_prediction result = clamp_probability p"
        "aggregate_probabilities aggregation_method weights (floats_of (concat ?ps)) = Inr p"
        unfolding aggregate_probability_path[OF ne ap len True]
        by (auto split: sum.splits)
      obtain x where "p = Number x"
        using aggregate_probabilities_Number[OF _ p(2)] assms(1) unfolding fl by auto
      then show ?thesis using clamp_probability_range p(1) by auto
    next
      case False
      have c1: "\<not> (''probability'' = ''probability'' \<and> aggregation_method \<noteq> Some ''meta'')"
        using False by simp
      have c2: "\<not> (''probability'' = ''tokens'' \<and> aggregation_method = Some ''vote-or-median'')"
        by simp
      from assms(2) obtain response where
        "meta_prediction result =
          clamp_probability (Number (extract_probability_with_stars response))"
        unfolding aggregate_meta_outcome[OF ne ap len c1 c2]
        by (auto split: sum.splits)
      then show ?thesis using clamp_probability_range by auto
    qed
  qed
qed

text \<open>
  C5.  When exactly one base reasoning exists across all groups, the function returns
  before it looks at the aggregation method: for either answer type the result carries
  that reasoning's extracted prediction as \<open>meta_prediction\<close>, \<open>meta_prompt\<close> and
  \<open>meta_reasoning\<close> are None, and no prompt is sent to the meta model.
\<close>

theorem single_reasoning_bypasses_aggregation:
  assumes "concat reasonings = [r]"
    and "answer_type = ''probability'' \<or> answer_type = ''tokens''"
  shows "\<exists>predictions p.
     all_predictions reasonings answer_type end_words = Inr predictions \<and>
     extract_prediction r answer_type end_words = Inr p \<and>
     aggregate_base_reasonings render llm reasonings aggregation_method answer_type weights
       end_words =
       (Inr \<lparr>base_reasonings = reasonings, base_predictions = predictions,
             meta_prediction = p, meta_prompt = None, meta_reasoning = None\<rparr>, [])"
  using assms by (rule single_reasoning_outcome)

text \<open>An instance: one reasoning in the second group, with the meta method.\<close>

theorem single_reasoning_bypasses_aggregation_witness:
  "aggregate_base_reasonings (\<lambda>s. Inr s) (\<lambda>p. Inr p) [[], [''I say *0.7*'']] (Some ''meta'') ''probability''
     None ten_options =
     (Inr \<lparr>base_reasonings = [[], [''I say *0.7*'']], base_predictions = [[], [Number (7 / 10)]],
           meta_prediction = Number (7 / 10), meta_prompt = None, meta_reasoning = None\<rparr>, [])"
proof -
  have h: "concat [[], [''I say *0.7*'']] = [''I say *0.7*'']"
    "''probability'' = ''probability'' \<or> ''probability'' = ''tokens''" by simp_all
  have e: "extract_probability_with_stars ''I say *0.7*'' = 7 / 10"
    by (simp add: extract_probability_with_stars_def numbers_in_stars_def findall_def
        star_pattern_def star_number_def first_num_run_def py_float_def is_num_char_def
        is_digit_def nat_of_digits_def digit_val_def)
  have p: "extract_prediction ''I say *0.7*'' ''probability'' ten_options = Inr (Number (7 / 10))"
    by (simp add: extract_prediction_def e)
  have a: "all_predictions [[], [''I say *0.7*'']] ''probability'' ten_options =
      Inr [[], [Number (7 / 10)]]"
    by (simp add: all_predictions_def p)
  from single_reasoning_bypasses_aggregation[OF h, of ten_options "\<lambda>s. Inr s" "\<lambda>p. Inr p" "Some ''meta''" None]
  show ?thesis unfolding a p by auto
qed

text \<open>
  C10.  With answer type tokens, method mean or weighted-mean and more than one base
  reasoning, the outcome is the outcome of the meta method: nothing is averaged.  When
  the prompt renders and the meta model answers, exactly that one prompt is sent, the
  result carries the prompt and the response, and its \<open>meta_prediction\<close> is the token
  parsed from the response (a vocabulary entry, or the default Slightly Unlikely).
\<close>

theorem tokens_mean_falls_through_to_meta:
  assumes "length (concat reasonings) > 1"
    and "aggregation_method = Some ''mean'' \<or> aggregation_method = Some ''weighted-mean''"
  shows "aggregate_base_reasonings render llm reasonings aggregation_method ''tokens'' weights
       end_words =
     aggregate_base_reasonings render llm reasonings (Some ''meta'') ''tokens'' weights end_words \<and>
     (\<forall>prompt response.
        render (concatenate_reasonings (concat reasonings)) = Inr prompt \<and>
        llm prompt = Inr response \<longrightarrow>
        (\<exists>predictions w.
           aggregate_base_reasonings render llm reasonings aggregation_method ''tokens'' weights
             end_words =
             (Inr \<lparr>base_reasonings = reasonings, base_predictions = predictions,
                   meta_prediction = Word w, meta_prompt = Some prompt,
                   meta_reasoning = Some response\<rparr>, [prompt]) \<and>
           Word w = token_or_default end_words
                      (token_result (find_end_word response end_words 50)) \<and>
           (w \<in> set end_words \<or> w = ''Slightly Unlikely'')))"
proof -
  let ?f = "\<lambda>x. if ''tokens'' = ''probability'' then Number (extract_probability_with_stars x)
        else token_result (find_end_word x end_words 50)"
  let ?ps = "map (map ?f) reasonings"
  have ap: "all_predictions reasonings ''tokens'' end_words = Inr ?ps"
    by (rule all_predictions_valid) simp
  have "concat ?ps = map ?f (concat reasonings)" by (simp only: map_concat)
  then have "length (concat ?ps) = length (concat reasonings)" by simp
  then have len: "length (concat ?ps) \<noteq> 1" using assms(1) by simp
  have ne: "reasonings \<noteq> []" using assms(1) by auto
  have c1: "\<not> (''tokens'' = ''probability'' \<and> m \<noteq> Some ''meta'')" for m :: "string option"
    by simp
  have c2: "\<not> (''tokens'' = ''tokens'' \<and> aggregation_method = Some ''vote-or-median'')"
    using assms(2) by auto
  have c3: "\<not> (''tokens'' = ''tokens'' \<and> Some ''meta'' = Some ''vote-or-median'')" by simp
  have eq: "aggregate_base_reasonings render llm reasonings aggregation_method ''tokens'' weights
       end_words =
     aggregate_base_reasonings render llm reasonings (Some ''meta'') ''tokens'' weights end_words"
    by (rule aggregate_meta_path_general[OF ne ap len c1[of aggregation_method] c2 c1[of "Some ''meta''"] c3])
  have run: "\<exists>predictions w.
           aggregate_base_reasonings render llm reasonings aggregation_method ''tokens'' weights
             end_words =
             (Inr \<lparr>base_reasonings = reasonings, base_predictions = predictions,
                   meta_prediction = Word w, meta_prompt = Some prompt,
                   meta_reasoning = Some response\<rparr>, [prompt]) \<and>
           Word w = token_or_default end_words
                      (token_result (find_end_word response end_words 50)) \<and>
           (w \<in> set end_words \<or> w = ''Slightly Unlikely'')"
    if r: "render (concatenate_reasonings (concat reasonings)) = Inr prompt"
      "llm prompt = Inr response" for prompt response
  proof -
    obtain w where w: "token_or_default end_words
        (token_result (find_end_word response end_words 50)) = Word w"
      "w \<in> set end_words \<or> w = ''Slightly Unlikely''"
      using token_or_default_vocabulary by blast
    have agg: "aggregate_base_reasonings render llm reasonings aggregation_method ''tokens'' weights
             end_words =
             (Inr \<lparr>base_reasonings = reasonings, base_predictions = ?ps,
                   meta_prediction = Word w, meta_prompt = Some prompt,
                   meta_reasoning = Some response\<rparr>, [prompt])"
      unfolding aggregate_meta_path[where render=render and llm=llm,
          OF ne ap len c1[of aggregation_method] c2 r] w(1)
      by simp
    show ?thesis
    proof (intro exI conjI)
      show "aggregate_base_reasonings render llm reasonings aggregation_method ''tokens'' weights
             end_words =
             (Inr \<lparr>base_reasonings = reasonings, base_predictions = ?ps,
                   meta_prediction = Word w, meta_prompt = Some prompt,
                   meta_reasoning = Some response\<rparr>, [prompt])"
        by (rule agg)
      show "Word w = token_or_default end_words
                      (token_result (find_end_word response end_words 50))"
        by (rule w(1)[symmetric])
      show "w \<in> set end_words \<or> w = ''Slightly Unlikely''" by (rule w(2))
    qed
  qed
  from eq run show ?thesis by blast
qed

text \<open>An instance: two reasonings, method mean, the six-option vocabulary.\<close>

theorem tokens_mean_falls_through_to_meta_witness:
  "\<exists>predictions.
     aggregate_base_reasonings (\<lambda>s. Inr (''Combine: '' @ s)) (\<lambda>p. Inr ''So it is Very Likely'')
       [[''Yes''], [''No'']] (Some ''mean'') ''tokens'' None six_options =
     (Inr \<lparr>base_reasonings = [[''Yes''], [''No'']], base_predictions = predictions,
           meta_prediction = Word ''Very Likely'',
           meta_prompt = Some (''Combine: '' @ concatenate_reasonings [''Yes'', ''No'']),
           meta_reasoning = Some ''So it is Very Likely''\<rparr>,
      [''Combine: '' @ concatenate_reasonings [''Yes'', ''No'']])"
proof -
  let ?render = "\<lambda>s. Inr (''Combine: '' @ s) :: error + string"
  let ?llm = "\<lambda>p::string. Inr ''So it is Very Likely'' :: error + string"
  let ?prompt = "''Combine: '' @ concatenate_reasonings [''Yes'', ''No'']"
  have h: "length (concat [[''Yes''], [''No'']]) > 1"
    "Some ''mean'' = Some ''mean'' \<or> Some ''mean'' = Some ''weighted-mean''" by simp_all
  have t: "token_or_default six_options
      (token_result (find_end_word ''So it is Very Likely'' six_options 50)) = Word ''Very Likely''"
    by (simp add: token_or_default_def token_result_def find_end_word_def sorted_desc_def
        word_count_def split_on_def window_def six_options_def is_string_in_list_def)
  have r: "?render (concatenate_reasonings (concat [[''Yes''], [''No'']])) = Inr ?prompt \<and>
    ?llm ?prompt = Inr ''So it is Very Likely''"
    by simp
  note main = tokens_mean_falls_through_to_meta[OF h, of ?render ?llm None six_options]
  from main[THEN conjunct2, rule_format, of ?prompt "''So it is Very Likely''", OF r]
  obtain predictions w where agg:
    "aggregate_base_reasonings ?render ?llm [[''Yes''], [''No'']] (Some ''mean'') ''tokens'' None
       six_options =
     (Inr \<lparr>base_reasonings = [[''Yes''], [''No'']], base_predictions = predictions,
           meta_prediction = Word w,
           meta_prompt = Some ?prompt,
           meta_reasoning = Some ''So it is Very Likely''\<rparr>, [?prompt])"
    and w: "Word w = token_or_default six_options
       (token_result (find_end_word ''So it is Very Likely'' six_options 50))"
    by (elim exE conjE)
  from w have "w = ''Very Likely''" unfolding t by (simp only: prediction.inject)
  with agg show ?thesis by (intro exI[of _ predictions]) (simp only:)
qed


subsection \<open>The date-range check of the retrieval entry points\<close>

lemma is_more_recent_parsed:
  "strptime date_from = Inr a \<Longrightarrow> strptime date_to = Inr b \<Longrightarrow>
   is_more_recent date_from date_to False = Inr (b > a)"
  by (simp add: is_more_recent_def)

text \<open>
  C6.  For every pair of date strings that \<^verbatim>\<open>strptime\<close> accepts in which the end
  date is not strictly after the start date, \<open>get_articles_from_all_sources\<close>,
  \<open>get_newscatcher_articles\<close> and \<open>get_gnews_articles\<close> return the empty list: they do
  not raise, and no provider is called, whatever the queries and the providers are.
\<close>

theorem invalid_date_range_returns_empty:
  assumes "strptime date_from = Inr a" and "strptime date_to = Inr b" and "\<not> b > a"
  shows "get_articles_from_all_sources P queries_gnews queries_nc [date_from, date_to]
       num_articles length_threshold = (Inr [], []) \<and>
     get_newscatcher_articles P search_terms [date_from, date_to] num_articles
       length_threshold = (Inr [], []) \<and>
     get_gnews_articles P search_terms [date_from, date_to] max_results = (Inr [], [])"
proof -
  have m: "is_more_recent date_from date_to False = Inr False"
    using is_more_recent_parsed[OF assms(1,2)] assms(3) by simp
  have "get_articles_from_all_sources P queries_gnews queries_nc [date_from, date_to]
       num_articles length_threshold = (Inr [], [])"
    by (simp add: get_articles_from_all_sources_def item_at_def m)
  moreover have "get_newscatcher_articles P search_terms [date_from, date_to] num_articles
       length_threshold = (Inr [], [])"
    by (simp add: get_newscatcher_articles_def m)
  moreover have "get_gnews_articles P search_terms [date_from, date_to] max_results = (Inr [], [])"
    by (simp add: get_gnews_articles_def m)
  ultimately show ?thesis by blast
qed

lemma strptime_example:
  "strptime ''2024-03-10'' = Inr ((2024, 3, 10), 0)"
  "strptime ''2024-03-01'' = Inr ((2024, 3, 1), 0)"
  by (simp_all add: strptime_def split_on_def is_digit_def nat_of_digits_def digit_val_def
      days_in_month_def is_leap_def)

text \<open>An instance: a range that ends nine days before it starts.\<close>

theorem invalid_date_range_returns_empty_witness:
  "get_articles_from_all_sources
     \<lparr>newscatcher_key = Some ''key'', get_search = (\<lambda>q f t. Inl ValueError),
      get_news = (\<lambda>q s e n. Inl ValueError), get_full_article = (\<lambda>u. None),
      irretrievable_sites = [''wsj.com'']\<rparr>
     (Some [''storm'']) (Some [''storm'']) [''2024-03-10'', ''2024-03-01''] 5 200 = (Inr [], [])"
proof -
  have h: "strptime ''2024-03-10'' = Inr ((2024, 3, 10), 0)"
    "strptime ''2024-03-01'' = Inr ((2024, 3, 1), 0)"
    "\<not> ((2024::nat, 3::nat, 1::nat), 0::nat) > ((2024, 3, 10), 0)"
    by (simp_all add: strptime_example)
  from invalid_date_range_returns_empty[OF h]
  show ?thesis by (rule conjunct1)
qed

subsection \<open>extract_probability_with_stars: the number it returns\<close>




















subsection \<open>recursive_summarize\<close>
















end
